theory Spec2Isabelle
  imports Main "HOL-Library.Sublist"
begin

section \<open>Queue downloader: data model\<close>

text \<open>
  The program is \<^verbatim>\<open>src/main.py\<close>. Text is modelled as \<^typ>\<open>string\<close>, a list of
  characters with code points below 256; Python integers are \<^typ>\<open>int\<close>.
\<close>

datatype StatusCode = SUCCESS | RATE_LIMIT | AGE_LIMIT | UNKNOWN_ERROR

text \<open>The string value of a member of the \<^verbatim>\<open>str\<close> enumeration \<^verbatim>\<open>StatusCode\<close>.\<close>

fun StatusCode_value :: "StatusCode \<Rightarrow> string" where
  "StatusCode_value SUCCESS = ''SUCCESS''"
| "StatusCode_value RATE_LIMIT = ''RATE_LIMIT''"
| "StatusCode_value AGE_LIMIT = ''AGE_LIMIT''"
| "StatusCode_value UNKNOWN_ERROR = ''UNKNOWN_ERROR''"

text \<open>
  Exceptions as values. \<^verbatim>\<open>DownloadError\<close> and \<^verbatim>\<open>ExtractorError\<close> are the two classes
  the retry loop names; \<^verbatim>\<open>ValueError\<close> and \<open>OtherException\<close> stand for the remaining
  subclasses of \<^verbatim>\<open>Exception\<close>; \<^verbatim>\<open>KeyboardInterrupt\<close> and \<^verbatim>\<open>SystemExit\<close> derive from
  \<^verbatim>\<open>BaseException\<close> only. An exception carries its message, which is what
  \<^verbatim>\<open>str(exc)\<close> returns.
\<close>

datatype exc_class =
  DownloadError | ExtractorError | ValueError | OtherException | KeyboardInterrupt | SystemExit

datatype exc = Exc exc_class string

fun exc_cls :: "exc \<Rightarrow> exc_class" where
  "exc_cls (Exc c m) = c"

fun str_exc :: "exc \<Rightarrow> string" where
  "str_exc (Exc c m) = m"

fun is_Exception :: "exc_class \<Rightarrow> bool" where
  "is_Exception KeyboardInterrupt = False"
| "is_Exception SystemExit = False"
| "is_Exception c = True"

section \<open>String operations of the Python runtime\<close>

text \<open>
  \<^verbatim>\<open>str.lower\<close> on code points below 256: the ASCII capitals and the Latin-1 capitals
  (192 to 222 except the multiplication sign 215) move up by 32.
\<close>

definition lower_char :: "char \<Rightarrow> char" where
  "lower_char c =
     (let n = (of_char c :: nat) in
      if (65 \<le> n \<and> n \<le> 90) \<or> (192 \<le> n \<and> n \<le> 222 \<and> n \<noteq> 215)
      then char_of (n + 32) else c)"

definition lower :: "string \<Rightarrow> string" where
  "lower s = map lower_char s"

text \<open>\<^verbatim>\<open>needle in hay\<close> on strings: \<open>needle\<close> occurs as a contiguous part.\<close>

fun py_in :: "string \<Rightarrow> string \<Rightarrow> bool" where
  "py_in needle [] = (needle = [])"
| "py_in needle (c # cs) = (prefix needle (c # cs) \<or> py_in needle cs)"

text \<open>
  \<^verbatim>\<open>str.isspace\<close> on one character, which is also what \<^verbatim>\<open>\s\<close> matches and what
  \<^verbatim>\<open>str.strip\<close> removes; and the line boundaries of \<^verbatim>\<open>str.splitlines\<close>.
\<close>

definition isspace :: "char \<Rightarrow> bool" where
  "isspace c = ((of_char c :: nat) \<in> set [9, 10, 11, 12, 13, 28, 29, 30, 31, 32, 133, 160])"

definition is_linebreak :: "char \<Rightarrow> bool" where
  "is_linebreak c = ((of_char c :: nat) \<in> set [10, 11, 12, 13, 28, 29, 30, 133])"

text \<open>
  \<^verbatim>\<open>str.splitlines\<close>: \<open>cur\<close> is the line read so far. A carriage return directly
  followed by a line feed is one boundary, and no empty last line is produced after a
  final boundary. (\<^verbatim>\<open>read_text\<close> turns every carriage return, with or without its line
  feed, into a line feed; the lines obtained are the same, so reading is the identity.)
\<close>

fun splitlines_from :: "string \<Rightarrow> string \<Rightarrow> string list" where
  "splitlines_from cur [] = (if cur = [] then [] else [cur])"
| "splitlines_from cur [c] = (if is_linebreak c then [cur] else [cur @ [c]])"
| "splitlines_from cur (c # d # cs) =
     (if c = CHR 0x0D \<and> d = CHR 0x0A then cur # splitlines_from [] cs
      else if is_linebreak c then cur # splitlines_from [] (d # cs)
      else splitlines_from (cur @ [c]) (d # cs))"

definition splitlines :: "string \<Rightarrow> string list" where
  "splitlines s = splitlines_from [] s"

definition strip :: "string \<Rightarrow> string" where
  "strip s = rev (dropWhile isspace (rev (dropWhile isspace s)))"

definition startswith :: "string \<Rightarrow> string \<Rightarrow> bool" where
  "startswith s p = prefix p s"

fun join :: "string \<Rightarrow> string list \<Rightarrow> string" where
  "join sep [] = []"
| "join sep [x] = x"
| "join sep (x # y # ys) = x @ sep @ join sep (y # ys)"

section \<open>Regular expressions\<close>

text \<open>
  The part of \<^verbatim>\<open>re\<close> the two patterns of the program use. \<open>rmatch ic r s\<close> lists the
  ways \<open>r\<close> matches at the start of \<open>s\<close>, in the order a backtracking matcher tries
  them (greedy repetition, left alternative first); each way is the texts of the groups
  closed so far and the rest of \<open>s\<close>. \<open>ic\<close> is \<^verbatim>\<open>re.IGNORECASE\<close>.
\<close>

datatype regex =
  Eps | Lit char | NotSpaceNor char | Seq regex regex | Alt regex regex | Opt regex
  | Plus regex | Group regex

function rmatch :: "bool \<Rightarrow> regex \<Rightarrow> string \<Rightarrow> (string list \<times> string) list" where
  "rmatch ic Eps s = [([], s)]"
| "rmatch ic (Lit c) s =
     (case s of [] \<Rightarrow> []
      | x # xs \<Rightarrow> if (if ic then lower_char x = lower_char c else x = c) then [([], xs)] else [])"
| "rmatch ic (NotSpaceNor c) s =
     (case s of [] \<Rightarrow> [] | x # xs \<Rightarrow> if \<not> isspace x \<and> x \<noteq> c then [([], xs)] else [])"
| "rmatch ic (Seq a b) s =
     concat (map (\<lambda>(g1, s1). map (\<lambda>(g2, s2). (g1 @ g2, s2)) (rmatch ic b s1)) (rmatch ic a s))"
| "rmatch ic (Alt a b) s = rmatch ic a s @ rmatch ic b s"
| "rmatch ic (Opt a) s = rmatch ic a s @ [([], s)]"
| "rmatch ic (Plus a) s =
     concat (map (\<lambda>(g1, s1).
        (if length s1 < length s
         then map (\<lambda>(g2, s2). (g1 @ g2, s2)) (rmatch ic (Plus a) s1) else []) @ [(g1, s1)])
       (rmatch ic a s))"
| "rmatch ic (Group a) s =
     map (\<lambda>(g, s1). (g @ [take (length s - length s1) s], s1)) (rmatch ic a s)"
  by pat_completeness auto
termination
  by (relation "measures [\<lambda>(ic, r, s). size r, \<lambda>(ic, r, s). length s]") auto

text \<open>\<^verbatim>\<open>pattern.search\<close>: the first way to match at the leftmost position that has one.\<close>

fun search :: "bool \<Rightarrow> regex \<Rightarrow> string \<Rightarrow> (string list \<times> string) option" where
  "search ic r [] = (case rmatch ic r [] of [] \<Rightarrow> None | m # ms \<Rightarrow> Some m)"
| "search ic r (c # cs) =
     (case rmatch ic r (c # cs) of [] \<Rightarrow> search ic r cs | m # ms \<Rightarrow> Some m)"

text \<open>\<^verbatim>\<open>match.group(1)\<close>.\<close>

definition group1 :: "string list \<times> string \<Rightarrow> string" where
  "group1 m = hd (fst m)"

text \<open>A run of literal characters.\<close>

primrec Str :: "string \<Rightarrow> regex" where
  "Str [] = Eps"
| "Str (c # cs) = Seq (Lit c) (Str cs)"

text \<open>\<^verbatim>\<open>https?://(?:www\.)?(youtube\.com|youtu\.be)/\<close>, used with \<^verbatim>\<open>re.IGNORECASE\<close>.\<close>

definition YOUTUBE_URL_RE :: regex where
  "YOUTUBE_URL_RE =
     Seq (Str ''http'') (Seq (Opt (Lit CHR ''s'')) (Seq (Str ''://'')
       (Seq (Opt (Str ''www.''))
         (Seq (Group (Alt (Str ''youtube.com'') (Str ''youtu.be''))) (Lit CHR ''/'')))))"

text \<open>\<^verbatim>\<open>\((https?://[^\s)]+)\)\<close>.\<close>

definition MARKDOWN_LINK_RE :: regex where
  "MARKDOWN_LINK_RE =
     Seq (Lit CHR ''('')
       (Seq (Group (Seq (Str ''http'') (Seq (Opt (Lit CHR ''s'')) (Seq (Str ''://'')
          (Plus (NotSpaceNor CHR '')''))))))
        (Lit CHR '')''))"

section \<open>Error classifier\<close>

definition classify_error :: "exc \<Rightarrow> StatusCode" where
  "classify_error e =
     (let msg = lower (str_exc e) in
      if py_in ''429'' msg \<or> py_in ''too many requests'' msg \<or> py_in ''rate'' msg
      then RATE_LIMIT
      else if py_in ''age'' msg \<and> py_in ''restrict'' msg
      then AGE_LIMIT
      else UNKNOWN_ERROR)"

section \<open>Configuration and the world the program runs in\<close>

type_synonym path = string

record Config =
  queue_file :: path
  failed_file :: path
  log_file :: path
  downloads_dir :: path
  max_retries :: int
  retry_delay_seconds :: int
  ytdlp_format :: string

definition default_Config :: Config where
  "default_Config =
     \<lparr>queue_file = ''queue.md'', failed_file = ''failed.md'', log_file = ''log.json'',
      downloads_dir = ''downloads'', max_retries = 3, retry_delay_seconds = 5,
      ytdlp_format = ''bestvideo+bestaudio/best''\<rparr>"

text \<open>
  The state outside the program: the text files by path, the number of attempts the
  download library has been asked to make so far, and the pauses taken, in order.
  Directories and the media files written by the library are not part of it.
\<close>

record world =
  files :: "path \<rightharpoonup> string"
  calls :: nat
  slept :: "int list"

text \<open>
  The download library is external. Its behaviour is a parameter: asked for the \<open>n\<close>-th
  time overall, about \<open>url\<close>, the body of the \<^verbatim>\<open>try\<close> statement of \<^verbatim>\<open>download_single\<close>
  (metadata extraction, folder creation, download) either completes (\<open>None\<close>) or raises.
\<close>

type_synonym collaborator = "nat \<Rightarrow> string \<Rightarrow> exc option"

definition try_body :: "collaborator \<Rightarrow> string \<Rightarrow> world \<Rightarrow> exc option \<times> world" where
  "try_body ydl url w = (ydl (calls w) url, w\<lparr>calls := Suc (calls w)\<rparr>)"

text \<open>\<^verbatim>\<open>time.sleep\<close> raises \<^verbatim>\<open>ValueError\<close> on a negative length.\<close>

definition time_sleep :: "int \<Rightarrow> world \<Rightarrow> (exc + unit) \<times> world" where
  "time_sleep secs w =
     (if secs < 0 then (Inl (Exc ValueError ''sleep length must be non-negative''), w)
      else (Inr (), w\<lparr>slept := slept w @ [secs]\<rparr>))"

section \<open>Retry controller\<close>

text \<open>
  The three \<^verbatim>\<open>except\<close> clauses of \<^verbatim>\<open>download_single\<close>, in order: the result is the
  new \<^verbatim>\<open>last_status\<close>, or the exception that leaves the function.
\<close>

definition handle_exc :: "exc \<Rightarrow> exc + StatusCode" where
  "handle_exc e =
     (if exc_cls e = DownloadError \<or> exc_cls e = ExtractorError then Inr (classify_error e)
      else if exc_cls e = KeyboardInterrupt then Inl e
      else if is_Exception (exc_cls e) then Inr (classify_error e)
      else Inl e)"

text \<open>The \<^verbatim>\<open>while\<close> loop of \<^verbatim>\<open>download_single\<close>, from the values of its two variables.\<close>

function download_loop ::
  "collaborator \<Rightarrow> string \<Rightarrow> Config \<Rightarrow> int \<Rightarrow> StatusCode \<Rightarrow> world
     \<Rightarrow> (exc + StatusCode \<times> int) \<times> world" where
  "download_loop ydl url cfg attempts last_status w =
     (if attempts < max_retries cfg then
        (case try_body ydl url w of
           (None, w1) \<Rightarrow> (Inr (SUCCESS, (attempts + 1) - 1), w1)
         | (Some e, w1) \<Rightarrow>
             (case handle_exc e of
                Inl raised \<Rightarrow> (Inl raised, w1)
              | Inr status \<Rightarrow>
                  if attempts + 1 < max_retries cfg then
                    (case time_sleep (retry_delay_seconds cfg) w1 of
                       (Inl raised, w2) \<Rightarrow> (Inl raised, w2)
                     | (Inr u, w2) \<Rightarrow> download_loop ydl url cfg (attempts + 1) status w2)
                  else download_loop ydl url cfg (attempts + 1) status w1))
      else (Inr (last_status, attempts), w))"
  by pat_completeness auto
termination
  by (relation "measure (\<lambda>(ydl, url, cfg, attempts, last_status, w).
        nat (max_retries cfg - attempts))") auto

definition download_single ::
  "collaborator \<Rightarrow> string \<Rightarrow> Config \<Rightarrow> world \<Rightarrow> (exc + StatusCode \<times> int) \<times> world" where
  "download_single ydl url cfg w = download_loop ydl url cfg 0 UNKNOWN_ERROR w"

section \<open>Queue loader\<close>

text \<open>The \<^verbatim>\<open>for\<close> loop of \<^verbatim>\<open>load_queue\<close>; \<open>urls\<close> is the list built so far.\<close>

fun load_queue_loop :: "string list \<Rightarrow> string list \<Rightarrow> string list" where
  "load_queue_loop [] urls = urls"
| "load_queue_loop (line # lines) urls =
     (let raw = strip line in
      if raw = [] \<or> startswith raw ''#'' then load_queue_loop lines urls
      else
        (let candidate =
               (case search False MARKDOWN_LINK_RE raw of Some m \<Rightarrow> group1 m | None \<Rightarrow> raw) in
         if search True YOUTUBE_URL_RE candidate \<noteq> None
         then load_queue_loop lines (urls @ [candidate])
         else load_queue_loop lines urls))"

definition load_queue :: "Config \<Rightarrow> world \<Rightarrow> string list" where
  "load_queue cfg w =
     (case files w (queue_file cfg) of
        None \<Rightarrow> []
      | Some text \<Rightarrow> load_queue_loop (splitlines text) [])"

section \<open>Run recorder\<close>

text \<open>
  JSON values as \<^verbatim>\<open>json.loads\<close> builds them (numbers with a fraction are left out). The
  parser and the printer belong to the standard library and are parameters: the parser
  returns the value or the exception it raises.
\<close>

datatype json =
  JNull | JBool bool | JInt int | JStr string | JArr "json list" | JObj "(string \<times> json) list"

type_synonym json_loads = "string \<Rightarrow> exc + json"
type_synonym json_dumps = "json \<Rightarrow> string"

record LogEntry =
  url :: string
  status :: string
  status_code :: StatusCode
  retries :: int
  date_created :: string

text \<open>
  \<^verbatim>\<open>asdict\<close>, with the status code as the string the printer writes for it (the
  enumeration derives from \<^verbatim>\<open>str\<close>).
\<close>

definition asdict :: "LogEntry \<Rightarrow> json" where
  "asdict e =
     JObj [(''url'', JStr (url e)), (''status'', JStr (status e)),
           (''status_code'', JStr (StatusCode_value (status_code e))),
           (''retries'', JInt (retries e)), (''date_created'', JStr (date_created e))]"

text \<open>
  \<^verbatim>\<open>load_log\<close>: \<^verbatim>\<open>except Exception\<close> turns what the parser raises into the empty log,
  unless it is not an \<^verbatim>\<open>Exception\<close>.
\<close>

definition load_log :: "json_loads \<Rightarrow> Config \<Rightarrow> world \<Rightarrow> exc + json list" where
  "load_log loads cfg w =
     (case files w (log_file cfg) of
        None \<Rightarrow> Inr []
      | Some text \<Rightarrow>
          (case loads text of
             Inr data \<Rightarrow> Inr (case data of JArr xs \<Rightarrow> xs | _ \<Rightarrow> [])
           | Inl raised \<Rightarrow> if is_Exception (exc_cls raised) then Inr [] else Inl raised))"

definition persist_log :: "json_dumps \<Rightarrow> Config \<Rightarrow> json list \<Rightarrow> world \<Rightarrow> world" where
  "persist_log dumps cfg entries w =
     w\<lparr>files := (files w)(log_file cfg \<mapsto> dumps (JArr entries))\<rparr>"

definition append_failed :: "Config \<Rightarrow> string list \<Rightarrow> world \<Rightarrow> world" where
  "append_failed cfg failed_urls w =
     (if failed_urls = [] then w
      else
        (let existing = (case files w (failed_file cfg) of
                           None \<Rightarrow> [] | Some text \<Rightarrow> splitlines text);
             merged = existing @ failed_urls in
         w\<lparr>files := (files w)(failed_file cfg \<mapsto> join [CHR 0x0A] merged @ [CHR 0x0A])\<rparr>))"

section \<open>Run orchestrator\<close>

text \<open>
  The \<^verbatim>\<open>for\<close> loop of \<^verbatim>\<open>process_queue\<close> over the remaining URLs, from the two lists
  it extends. \<open>now\<close> is the time stamp taken before the loop. Printing is not modelled.
\<close>

fun process_urls ::
  "collaborator \<Rightarrow> Config \<Rightarrow> string \<Rightarrow> string list \<Rightarrow> json list \<Rightarrow> string list \<Rightarrow> world
     \<Rightarrow> (exc + json list \<times> string list) \<times> world" where
  "process_urls ydl cfg now [] log_entries failed_urls w = (Inr (log_entries, failed_urls), w)"
| "process_urls ydl cfg now (u # urls) log_entries failed_urls w =
     (case download_single ydl u cfg w of
        (Inl raised, w1) \<Rightarrow> (Inl raised, w1)
      | (Inr (code, attempts), w1) \<Rightarrow>
          (let success = (code = SUCCESS);
               status_text = (if success then ''downloaded'' else ''failed'');
               retries_used = (if success then max 0 (attempts - 1) else attempts);
               entry = \<lparr>url = u, status = status_text, status_code = code,
                        retries = retries_used, date_created = now\<rparr>
           in process_urls ydl cfg now urls (log_entries @ [asdict entry])
                (if \<not> success then failed_urls @ [u] else failed_urls) w1))"

definition process_queue ::
  "collaborator \<Rightarrow> json_loads \<Rightarrow> json_dumps \<Rightarrow> string \<Rightarrow> Config \<Rightarrow> world
     \<Rightarrow> (exc + unit) \<times> world" where
  "process_queue ydl loads dumps now cfg w =
     (let urls = load_queue cfg w in
      if urls = [] then (Inr (), w)
      else
        (case load_log loads cfg w of
           Inl raised \<Rightarrow> (Inl raised, w)
         | Inr log_entries \<Rightarrow>
             (case process_urls ydl cfg now urls log_entries [] w of
                (Inl raised, w1) \<Rightarrow> (Inl raised, w1)
              | (Inr (log_entries1, failed_urls), w1) \<Rightarrow>
                  (Inr (), persist_log dumps cfg log_entries1 (append_failed cfg failed_urls w1)))))"

section \<open>Reading the persisted files\<close>





section \<open>A printer and a parser that invert each other\<close>







section \<open>The queue loader as the specification words it\<close>

text \<open>
  A second description of the loader, written from the specification and not from the
  code. A line is skipped when, trimmed, it is empty or starts with \<open>#\<close>. The candidate
  of a line is its first markdown link target, if it has one, and the trimmed line
  otherwise; a link target is what stands between an opening parenthesis followed by
  \<^verbatim>\<open>http://\<close> or \<^verbatim>\<open>https://\<close> and the closing parenthesis that ends a non-empty run of
  characters other than white space and closing parentheses. A candidate is retained when,
  read without regard to case, it contains one of the eight host prefixes.
\<close>

definition host_urls :: "string list" where
  "host_urls =
     [scheme @ ''://'' @ www @ host @ ''/''.
        scheme \<leftarrow> [''http'', ''https''], www \<leftarrow> ['''', ''www.''],
        host \<leftarrow> [''youtube.com'', ''youtu.be'']]"

definition matches_host :: "string \<Rightarrow> bool" where
  "matches_host candidate = list_ex (\<lambda>p. py_in p (lower candidate)) host_urls"

definition url_char :: "char \<Rightarrow> bool" where
  "url_char c = (\<not> isspace c \<and> c \<noteq> CHR '')'')"

definition link_body :: "string \<Rightarrow> string \<Rightarrow> string option" where
  "link_body scheme s =
     (let body = takeWhile url_char s in
      if body \<noteq> [] \<and> prefix '')'' (dropWhile url_char s) then Some (scheme @ body) else None)"

definition link_here :: "string \<Rightarrow> string option" where
  "link_here s =
     (if prefix ''(https://'' s then link_body ''https://'' (drop 9 s)
      else if prefix ''(http://'' s then link_body ''http://'' (drop 8 s)
      else None)"

fun first_link :: "string \<Rightarrow> string option" where
  "first_link [] = None"
| "first_link (c # cs) =
     (case link_here (c # cs) of Some u \<Rightarrow> Some u | None \<Rightarrow> first_link cs)"

definition spec_candidate :: "string \<Rightarrow> string" where
  "spec_candidate line =
     (case first_link (strip line) of Some u \<Rightarrow> u | None \<Rightarrow> strip line)"

definition spec_skipped :: "string \<Rightarrow> bool" where
  "spec_skipped line = (strip line = [] \<or> prefix ''#'' (strip line))"

definition spec_load_queue :: "string option \<Rightarrow> string list" where
  "spec_load_queue file =
     (case file of
        None \<Rightarrow> []
      | Some content \<Rightarrow>
          filter matches_host
            (map spec_candidate (filter (\<lambda>line. \<not> spec_skipped line) (splitlines content))))"

section \<open>Notions for reasoning about the two patterns\<close>

text \<open>
  The words of a pattern built without repetition and character sets, and the rests left
  by one or more link characters (the longest run first).
\<close>

fun finite_re :: "regex \<Rightarrow> bool" where
  "finite_re Eps = True"
| "finite_re (Lit c) = True"
| "finite_re (NotSpaceNor c) = False"
| "finite_re (Seq a b) = (finite_re a \<and> finite_re b)"
| "finite_re (Alt a b) = (finite_re a \<and> finite_re b)"
| "finite_re (Opt a) = finite_re a"
| "finite_re (Plus a) = False"
| "finite_re (Group a) = finite_re a"

fun words :: "regex \<Rightarrow> string list" where
  "words Eps = [[]]"
| "words (Lit c) = [[c]]"
| "words (NotSpaceNor c) = []"
| "words (Seq a b) = [x @ y. x \<leftarrow> words a, y \<leftarrow> words b]"
| "words (Alt a b) = words a @ words b"
| "words (Opt a) = words a @ [[]]"
| "words (Plus a) = []"
| "words (Group a) = words a"

fun plus_rests :: "string \<Rightarrow> string list" where
  "plus_rests [] = []"
| "plus_rests (x # xs) = (if url_char x then plus_rests xs @ [xs] else [])"

section \<open>Properties of the string operations\<close>

lemma py_in_iff_sublist: "py_in needle hay \<longleftrightarrow> sublist needle hay"
  by (induction hay) (auto simp: sublist_Cons_right)

lemma char_of_eq_left: "(c = char_of (n::nat)) \<longleftrightarrow> take_bit 8 n = of_char c"
  using char_of_eq_iff [of n c] by auto

lemmas char_eval = lower_def lower_char_def isspace_def is_linebreak_def char_of_eq_iff
  char_of_eq_left








section \<open>Properties of the regular expressions\<close>

declare rmatch.simps(7) [simp del]



section \<open>Error classifier: properties\<close>

text \<open>
  C2. As stated the claim fails: the classifier also answers \<open>RATE_LIMIT\<close> for a message
  that contains "rate" or "too many requests", so a message with neither "429" nor both
  of "age" and "restrict" need not be classified \<open>UNKNOWN_ERROR\<close>.
\<close>

theorem classify_error_rate_counterexample:
  "\<not> py_in ''429'' (lower ''Rate exceeded'')
   \<and> \<not> (py_in ''age'' (lower ''Rate exceeded'') \<and> py_in ''restrict'' (lower ''Rate exceeded''))
   \<and> classify_error (Exc DownloadError ''Rate exceeded'') = RATE_LIMIT"
  by code_simp

text \<open>
  C2, amended. On the lower-cased message: if it contains "429", "too many requests" or
  "rate" the result is \<open>RATE_LIMIT\<close>; otherwise, if it contains both "age" and "restrict"
  the result is \<open>AGE_LIMIT\<close>; otherwise it is \<open>UNKNOWN_ERROR\<close>.
\<close>

theorem classify_error_cases:
  "classify_error e =
     (if sublist ''429'' (lower (str_exc e)) \<or> sublist ''too many requests'' (lower (str_exc e))
         \<or> sublist ''rate'' (lower (str_exc e)) then RATE_LIMIT
      else if sublist ''age'' (lower (str_exc e)) \<and> sublist ''restrict'' (lower (str_exc e))
      then AGE_LIMIT else UNKNOWN_ERROR)"
  by (simp add: classify_error_def Let_def py_in_iff_sublist)

theorem classify_error_cases_witness:
  "classify_error (Exc DownloadError ''HTTP Error 429'') = RATE_LIMIT
   \<and> classify_error (Exc ExtractorError ''Sign in: AGE-RESTRICTED video'') = AGE_LIMIT
   \<and> classify_error (Exc OtherException ''Video unavailable'') = UNKNOWN_ERROR"
  using classify_error_cases [of "Exc DownloadError ''HTTP Error 429''"]
    classify_error_cases [of "Exc ExtractorError ''Sign in: AGE-RESTRICTED video''"]
    classify_error_cases [of "Exc OtherException ''Video unavailable''"]
  by (simp add: py_in_iff_sublist [symmetric] char_eval)


section \<open>Retry controller: properties\<close>

declare download_loop.simps [simp del]




lemma download_loop_calls:
  "download_loop ydl u cfg attempts last_status w = (r, w') \<Longrightarrow>
   calls w \<le> calls w' \<and> int (calls w') - int (calls w) \<le> max 0 (max_retries cfg - attempts)
   \<and> length (slept w) \<le> length (slept w')
   \<and> int (length (slept w')) - int (length (slept w)) \<le> max 0 (max_retries cfg - attempts - 1)
   \<and> files w' = files w"
proof (induction ydl u cfg attempts last_status w arbitrary: r w' rule: download_loop.induct)
  case (1 ydl u cfg attempts last_status w)
  show ?case
  proof (cases "attempts < max_retries cfg")
    case False
    with "1.prems" show ?thesis by (simp add: download_loop.simps)
  next
    case lt: True
    show ?thesis
    proof (cases "ydl (calls w) u")
      case None
      with lt "1.prems" show ?thesis
        by (auto simp: download_loop.simps try_body_def)
    next
      case (Some e)
      show ?thesis
      proof (cases "handle_exc e")
        case (Inl raised)
        with Some lt "1.prems" show ?thesis
          by (auto simp: download_loop.simps try_body_def)
      next
        case (Inr st)
        let ?w1 = "w\<lparr>calls := Suc (calls w)\<rparr>"
        have tb: "try_body ydl u w = (Some e, ?w1)" by (simp add: try_body_def Some)
        show ?thesis
        proof (cases "attempts + 1 < max_retries cfg")
          case False
          with lt Some Inr "1.prems" tb
          have "download_loop ydl u cfg (attempts + 1) st ?w1 = (r, w')"
            by (simp add: download_loop.simps [of ydl u cfg attempts])
          from "1.IH"(2) [OF lt tb [symmetric] refl Inr False this] lt False
          show ?thesis by auto
        next
          case again: True
          show ?thesis
          proof (cases "retry_delay_seconds cfg < 0")
            case True
            with lt Some Inr "1.prems" tb again show ?thesis
              by (auto simp: download_loop.simps [of ydl u cfg attempts] time_sleep_def)
          next
            case False
            let ?w2 = "?w1\<lparr>slept := slept ?w1 @ [retry_delay_seconds cfg]\<rparr>"
            have ts: "time_sleep (retry_delay_seconds cfg) ?w1 = (Inr (), ?w2)"
              using False by (simp add: time_sleep_def)
            with lt Some Inr "1.prems" tb again
            have "download_loop ydl u cfg (attempts + 1) st ?w2 = (r, w')"
              by (simp add: download_loop.simps [of ydl u cfg attempts])
            from "1.IH"(1) [OF lt tb [symmetric] refl Inr again ts [symmetric] refl this] lt again
            show ?thesis by auto
          qed
        qed
      qed
    qed
  qed
qed

text \<open>
  C9. The loop is a total function (its termination is proved with the definition). With
  \<open>max_retries \<ge> 0\<close> it asks the download library at most \<open>max_retries\<close> times,
  whatever the outcome; with \<open>max_retries = 0\<close> the result is \<open>(UNKNOWN_ERROR, 0)\<close> and
  the world is unchanged: the library is not asked and no pause is taken.
\<close>

theorem download_single_bounded:
  assumes "0 \<le> max_retries cfg" and "download_single ydl u cfg w = (r, w')"
  shows "calls w \<le> calls w' \<and> int (calls w') - int (calls w) \<le> max_retries cfg
         \<and> (max_retries cfg = 0 \<longrightarrow> r = Inr (UNKNOWN_ERROR, 0) \<and> w' = w)"
proof -
  from download_loop_calls [OF assms(2) [unfolded download_single_def]] assms(1)
  have "calls w \<le> calls w' \<and> int (calls w') - int (calls w) \<le> max_retries cfg" by auto
  moreover have "max_retries cfg = 0 \<longrightarrow> r = Inr (UNKNOWN_ERROR, 0) \<and> w' = w"
    using assms(2) by (auto simp: download_single_def download_loop.simps)
  ultimately show ?thesis by blast
qed

theorem download_single_bounded_witness:
  "0 \<le> max_retries (default_Config\<lparr>max_retries := 0\<rparr>)
   \<and> download_single (\<lambda>n u. None) ''https://youtu.be/a'' (default_Config\<lparr>max_retries := 0\<rparr>)
        \<lparr>files = Map.empty, calls = 0, slept = []\<rparr>
      = (Inr (UNKNOWN_ERROR, 0), \<lparr>files = Map.empty, calls = 0, slept = []\<rparr>)"
proof -
  let ?cfg = "default_Config\<lparr>max_retries := 0\<rparr>"
  let ?w = "\<lparr>files = Map.empty, calls = 0, slept = []\<rparr>"
  obtain r w' where run: "download_single (\<lambda>n u. None) ''https://youtu.be/a'' ?cfg ?w = (r, w')"
    by (cases "download_single (\<lambda>n u. None) ''https://youtu.be/a'' ?cfg ?w") blast
  have nonneg: "0 \<le> max_retries ?cfg" by simp
  from download_single_bounded [OF nonneg run] have "r = Inr (UNKNOWN_ERROR, 0) \<and> w' = ?w"
    by simp
  with run nonneg show ?thesis by simp
qed

section \<open>Run orchestrator: properties\<close>

text \<open>
  C1. The claim fails on the code. \<^verbatim>\<open>download_single\<close> already returns the number of
  attempts minus one on success, and \<^verbatim>\<open>process_queue\<close> subtracts one again: for a URL
  that fails once and then succeeds the entry records 0 retries, where one attempt beyond
  the first failed.
\<close>

theorem process_urls_retries_after_one_failure:
  "process_urls (\<lambda>n u. if n = 0 then Some (Exc DownloadError ''HTTP Error 503'') else None)
     default_Config ''2024-01-01T00:00:00Z'' [''https://youtu.be/a''] [] []
     \<lparr>files = Map.empty, calls = 0, slept = []\<rparr>
   = (Inr ([asdict \<lparr>url = ''https://youtu.be/a'', status = ''downloaded'',
                     status_code = SUCCESS, retries = 0,
                     date_created = ''2024-01-01T00:00:00Z''\<rparr>], []),
      \<lparr>files = Map.empty, calls = 2, slept = [5]\<rparr>)"
  by (simp add: download_single_def download_loop.simps try_body_def time_sleep_def
      handle_exc_def default_Config_def)

section \<open>The loop over the queue: properties\<close>


























section \<open>Run recorder: properties\<close>

text \<open>
  C7. Provided the JSON parser raises only exceptions derived from \<^verbatim>\<open>Exception\<close> (as
  \<^verbatim>\<open>json.loads\<close> does on any text), \<^verbatim>\<open>load_log\<close> raises nothing, whatever the file
  holds: an absent file and a text the parser rejects both give the empty log, and the run
  then goes on from an empty list of entries.
\<close>

theorem load_log_never_raises:
  assumes parser: "\<forall>t e. loads t = Inl e \<longrightarrow> is_Exception (exc_cls e)"
  shows "(\<exists>entries. load_log loads cfg w = Inr entries)
       \<and> (files w (log_file cfg) = None \<longrightarrow> load_log loads cfg w = Inr [])
       \<and> (\<forall>t e. files w (log_file cfg) = Some t \<and> loads t = Inl e
             \<longrightarrow> load_log loads cfg w = Inr [])
       \<and> (load_log loads cfg w = Inr [] \<and> load_queue cfg w \<noteq> [] \<longrightarrow>
            process_queue ydl loads dumps now cfg w =
              (case process_urls ydl cfg now (load_queue cfg w) [] [] w of
                 (Inl raised, w1) \<Rightarrow> (Inl raised, w1)
               | (Inr (l, f), w1) \<Rightarrow>
                   (Inr (), persist_log dumps cfg l (append_failed cfg f w1))))"
proof -
  have a: "\<exists>entries. load_log loads cfg w = Inr entries"
    using parser by (auto simp: load_log_def split: option.splits sum.splits)
  have b: "files w (log_file cfg) = None \<longrightarrow> load_log loads cfg w = Inr []"
    by (simp add: load_log_def)
  have c: "\<forall>t e. files w (log_file cfg) = Some t \<and> loads t = Inl e
             \<longrightarrow> load_log loads cfg w = Inr []"
    using parser by (auto simp: load_log_def)
  have d: "load_log loads cfg w = Inr [] \<and> load_queue cfg w \<noteq> [] \<longrightarrow>
            process_queue ydl loads dumps now cfg w =
              (case process_urls ydl cfg now (load_queue cfg w) [] [] w of
                 (Inl raised, w1) \<Rightarrow> (Inl raised, w1)
               | (Inr (l, f), w1) \<Rightarrow>
                   (Inr (), persist_log dumps cfg l (append_failed cfg f w1)))"
    by (simp add: process_queue_def)
  from a b c d show ?thesis by blast
qed

theorem load_log_never_raises_witness:
  "is_Exception (exc_cls (Exc ValueError ''Expecting value''))
   \<and> load_log (\<lambda>t. Inl (Exc ValueError ''Expecting value'')) default_Config
        \<lparr>files = [''log.json'' \<mapsto> ''{not json''], calls = 0, slept = []\<rparr> = Inr []"
proof -
  let ?loads = "\<lambda>t. Inl (Exc ValueError ''Expecting value'') :: exc + json"
  let ?w = "\<lparr>files = [''log.json'' \<mapsto> ''{not json''], calls = 0, slept = []\<rparr>"
  have h: "\<forall>t e. ?loads t = Inl e \<longrightarrow> is_Exception (exc_cls e)" by auto
  have f: "files ?w (log_file default_Config) = Some ''{not json''"
    by (simp add: default_Config_def)
  from load_log_never_raises [OF h, of default_Config ?w] f
  have "load_log ?loads default_Config ?w = Inr []" by blast
  then show ?thesis by simp
qed



section \<open>A URL that always fails\<close>




section \<open>Two runs\<close>




section \<open>The printer and parser pair: round trip\<close>











end
